theory Spec2Isabelle
  imports Main "HOL-Library.AList" "HOL-Library.Multiset" "HOL-Library.Signed_Division"
begin

section \<open>The EPBot wrapper: data model\<close>

text \<open>
  Shallow embedding of \<^verbatim>\<open>src/wrapper/src/epbot_wrapper.cpp\<close> and of the enums of
  \<^verbatim>\<open>src/wrapper/include/epbot_ffi.h\<close>.

  Conventions of the model:
  \<^item> a \<^verbatim>\<open>const char*\<close> argument is a \<open>string option\<close>: \<open>None\<close> is the null pointer,
    \<open>Some s\<close> the characters before the terminator;
  \<^item> the handle argument is an \<open>EPBotHandle option\<close>, \<open>None\<close> being \<^verbatim>\<open>nullptr\<close>;
  \<^item> \<^verbatim>\<open>int32_t\<close> and \<^verbatim>\<open>int\<close> values are \<open>int\<close>. The cast of a size to \<^verbatim>\<open>int\<close> wraps
    around in the loop of \<^verbatim>\<open>epbot_set_bid\<close>, which can grow the vector past any size;
    elsewhere sizes are taken to fit \<^verbatim>\<open>int\<close>;
  \<^item> the managed engine \<^verbatim>\<open>EPBot64::EPBot\<close> is not part of the repository. It is a
    parameter: a record of operations on an abstract engine state \<open>'e\<close>, each returning
    the engine state after the access and either a value or the message of the managed
    exception it threw;
  \<^item> allocation succeeds: \<^verbatim>\<open>push_back\<close> and the string constructors do not throw.
\<close>

datatype EPBotError =
    EPBOT_OK
  | EPBOT_ERR_NULL_HANDLE
  | EPBOT_ERR_INVALID_HAND
  | EPBOT_ERR_INVALID_DEALER
  | EPBOT_ERR_INVALID_VULNERABILITY
  | EPBOT_ERR_INVALID_CONVENTION_FILE
  | EPBOT_ERR_BIDDING_FAILED
  | EPBOT_ERR_CLR_EXCEPTION
  | EPBOT_ERR_OUT_OF_MEMORY
  | EPBOT_ERR_AUCTION_COMPLETE

datatype EPBotDealer = DEALER_NORTH | DEALER_EAST | DEALER_SOUTH | DEALER_WEST

datatype EPBotSide = SIDE_NS | SIDE_EW

fun dealer_int :: "EPBotDealer \<Rightarrow> int" where
  "dealer_int DEALER_NORTH = 0"
| "dealer_int DEALER_EAST = 1"
| "dealer_int DEALER_SOUTH = 2"
| "dealer_int DEALER_WEST = 3"

text \<open>The struct \<^verbatim>\<open>EPBotHandle\<close>; \<open>instance'\<close> is its field \<^verbatim>\<open>instance\<close>.\<close>

record 'e EPBotHandle =
  instance' :: 'e
  auction :: "string list"
  current_position :: int
  dealer :: EPBotDealer
  auction_started :: bool

section \<open>Auction termination\<close>

text \<open>The scan \<^verbatim>\<open>for (const auto& bid : auction)\<close> that sets \<^verbatim>\<open>has_bid\<close> and breaks.\<close>

fun has_bid :: "string list \<Rightarrow> bool" where
  "has_bid [] = False"
| "has_bid (bid # rest) =
     (if bid \<noteq> ''Pass'' \<and> bid \<noteq> ''P'' then True else has_bid rest)"

definition IsAuctionComplete :: "string list \<Rightarrow> bool" where
  "IsAuctionComplete auction_v =
     (if length auction_v < 4 then False
      else if \<not> has_bid auction_v then length auction_v \<ge> 4
      else if length auction_v \<ge> 3 then
        (let b1 = auction_v ! (length auction_v - 1);
             b2 = auction_v ! (length auction_v - 2);
             b3 = auction_v ! (length auction_v - 3)
         in if (b1 = ''Pass'' \<or> b1 = ''P'') \<and>
               (b2 = ''Pass'' \<or> b2 = ''P'') \<and>
               (b3 = ''Pass'' \<or> b3 = ''P'')
            then True else False)
      else False)"

text \<open>
  The pass tokens of the specification's termination rule: \<^verbatim>\<open>"Pass"\<close> or \<^verbatim>\<open>"P"\<close>.
\<close>

definition pass_token :: "string \<Rightarrow> bool" where
  "pass_token t = (t = ''Pass'' \<or> t = ''P'')"

section \<open>The managed engine as a parameter\<close>

text \<open>
  A \<^verbatim>\<open>String^\<close> is a \<open>string option\<close>, \<open>None\<close> being \<^verbatim>\<open>nullptr\<close>. An access to the
  engine either yields a value or throws a managed \<^verbatim>\<open>Exception^\<close>, of which the wrapper
  reads the \<^verbatim>\<open>Message\<close> only.
\<close>

type_synonym managed_string = "string option"

datatype 'a managed = Value 'a | Throws managed_string

text \<open>The convention properties of the engine that \<^verbatim>\<open>epbot_set_convention\<close> assigns.\<close>

datatype property =
    Bergen | Stayman | Blackwood_0314 | Blackwood_1430 | Jacoby_2NT | Cappelletti
  | Drury | Lebensohl | Michaels_Cuebid | Splinter | Texas_Transfer | Unusual_2NT

text \<open>
  The accesses the modelled functions make: \<^verbatim>\<open>instance->Position = p\<close>, reading
  \<^verbatim>\<open>instance->bid\<close>, \<^verbatim>\<open>instance->bid = s\<close> and \<^verbatim>\<open>bot->P = value\<close> for a convention
  property \<^verbatim>\<open>P\<close>. Each takes the engine state and returns the state after the access.
\<close>

record 'e EPBot =
  Position_set :: "int \<Rightarrow> 'e \<Rightarrow> unit managed \<times> 'e"
  bid_get :: "'e \<Rightarrow> managed_string managed \<times> 'e"
  bid_set :: "managed_string \<Rightarrow> 'e \<Rightarrow> unit managed \<times> 'e"
  convention_set :: "property \<Rightarrow> int \<Rightarrow> 'e \<Rightarrow> unit managed \<times> 'e"

text \<open>
  \<^verbatim>\<open>ManagedToStd\<close>: the ANSI bytes of the managed string are read as a C string, that is
  up to the first zero byte.
\<close>

definition ManagedToStd :: "managed_string \<Rightarrow> string" where
  "ManagedToStd managed_v =
     (case managed_v of None \<Rightarrow> '''' | Some s \<Rightarrow> takeWhile (\<lambda>c. c \<noteq> CHR 0x00) s)"

definition StdToManaged :: "string option \<Rightarrow> managed_string" where
  "StdToManaged str = (case str of None \<Rightarrow> None | Some s \<Rightarrow> Some s)"

section \<open>What a call leaves behind\<close>

text \<open>
  \<open>ret\<close> is the returned code, \<open>handle'\<close> the struct behind the instance pointer after the
  call, \<open>last_error\<close> the message the call passed to \<^verbatim>\<open>SetError\<close> (\<open>None\<close>: the thread's
  slot was not written), \<open>written\<close> the bytes stored from \<^verbatim>\<open>buffer[0]\<close> on (\<open>None\<close>: the
  caller's buffer was not written).
\<close>

record 'e result =
  ret :: EPBotError
  handle' :: "'e EPBotHandle option"
  last_error :: "string option"
  written :: "string option"

text \<open>
  Two outcomes that are not a return: undefined behaviour, \<^verbatim>\<open>std::vector::operator[]\<close>
  outside \<^verbatim>\<open>[0, size)\<close> used as the target of an assignment, and a loop that does not
  exit.
\<close>

datatype fault = OutOfBoundsWrite | LoopNeverExits

text \<open>
  \<^verbatim>\<open>strncpy(buffer, bid.c_str(), buffer_size - 1); buffer[buffer_size - 1] = '\0'\<close>:
  the bytes of the source up to its terminator, at most \<open>n\<close> of them, padded with zero
  bytes to \<open>n\<close>, then the final zero byte.
\<close>

definition strncpy :: "string \<Rightarrow> nat \<Rightarrow> string" where
  "strncpy src n =
     (let s = takeWhile (\<lambda>c. c \<noteq> CHR 0x00) src
      in take n s @ replicate (n - length s) (CHR 0x00))"

definition copy_to_buffer :: "string \<Rightarrow> int \<Rightarrow> string" where
  "copy_to_buffer bid buffer_size = strncpy bid (nat (buffer_size - 1)) @ [CHR 0x00]"

section \<open>Bidding\<close>

text \<open>C++ \<^verbatim>\<open>%\<close> truncates towards zero: \<open>smod\<close>.\<close>

definition GetCurrentBidderPosition :: "'e EPBotHandle \<Rightarrow> int" where
  "GetCurrentBidderPosition h = (dealer_int (dealer h) + current_position h) smod 4"

text \<open>
  \<open>buffer\<close> says that the buffer pointer is not null. The bid is recorded before its
  length is compared with \<open>buffer_size\<close>, as in the source.
\<close>

definition epbot_get_next_bid ::
  "'e EPBot \<Rightarrow> 'e EPBotHandle option \<Rightarrow> bool \<Rightarrow> int \<Rightarrow> 'e result" where
  "epbot_get_next_bid eng inst buffer buffer_size =
     (case inst of
        None \<Rightarrow> \<lparr>ret = EPBOT_ERR_NULL_HANDLE, handle' = None,
                  last_error = Some ''Null instance handle'', written = None\<rparr>
      | Some h \<Rightarrow>
          if \<not> buffer \<or> buffer_size < 1 then
            \<lparr>ret = EPBOT_ERR_OUT_OF_MEMORY, handle' = Some h,
             last_error = Some ''Invalid buffer'', written = None\<rparr>
          else if IsAuctionComplete (auction h) then
            \<lparr>ret = EPBOT_ERR_AUCTION_COMPLETE, handle' = Some h,
             last_error = Some ''Auction is complete'', written = None\<rparr>
          else
            (let bidder_position = GetCurrentBidderPosition h in
             case Position_set eng bidder_position (instance' h) of
               (Throws m, e1) \<Rightarrow>
                 \<lparr>ret = EPBOT_ERR_BIDDING_FAILED, handle' = Some (h\<lparr>instance' := e1\<rparr>),
                  last_error = Some (ManagedToStd m), written = None\<rparr>
             | (Value _, e1) \<Rightarrow>
                (case bid_get eng e1 of
                   (Throws m, e2) \<Rightarrow>
                     \<lparr>ret = EPBOT_ERR_BIDDING_FAILED, handle' = Some (h\<lparr>instance' := e2\<rparr>),
                      last_error = Some (ManagedToStd m), written = None\<rparr>
                 | (Value bid_managed, e2) \<Rightarrow>
                    (let bid0 = ManagedToStd bid_managed;
                         bid = (if bid0 = [] then ''Pass'' else bid0);
                         h1 = h\<lparr>instance' := e2,
                                auction := auction h @ [bid],
                                current_position := current_position h + 1,
                                auction_started := True\<rparr>
                     in if int (length bid) \<ge> buffer_size then
                          \<lparr>ret = EPBOT_ERR_OUT_OF_MEMORY, handle' = Some h1,
                           last_error = Some ''Buffer too small'', written = None\<rparr>
                        else
                          \<lparr>ret = EPBOT_OK, handle' = Some h1, last_error = None,
                           written = Some (copy_to_buffer bid buffer_size)\<rparr>))))"

text \<open>
  \<^verbatim>\<open>static_cast<int>\<close> of a container size: the value modulo \<open>2^32\<close>, read as a signed
  32-bit integer. It is the size itself up to 2147483647.
\<close>

definition cast_int :: "nat \<Rightarrow> int" where
  "cast_int n = (int n + 2147483648) mod 4294967296 - 2147483648"

text \<open>
  The loop \<^verbatim>\<open>while (static_cast<int>(handle->auction.size()) <= bid_index)
  handle->auction.push_back("")\<close>. For \<^verbatim>\<open>bid_index = 2147483647\<close> the condition holds
  for every size and the loop does not exit: the result is \<open>None\<close>.
\<close>

partial_function (option) extend_auction :: "string list \<Rightarrow> int \<Rightarrow> string list option" where
  "extend_auction auction_v bid_index =
     (if cast_int (length auction_v) \<le> bid_index
      then extend_auction (auction_v @ ['''']) bid_index
      else Some auction_v)"

text \<open>
  \<^verbatim>\<open>handle->auction[bid_index] = bid\<close> follows the loop with no check of the index: for
  an index outside the vector the assignment is undefined behaviour.
\<close>

definition epbot_set_bid ::
  "'e EPBot \<Rightarrow> 'e EPBotHandle option \<Rightarrow> int \<Rightarrow> string option \<Rightarrow> fault + 'e result" where
  "epbot_set_bid eng inst bid_index bid =
     (case inst of
        None \<Rightarrow> Inr \<lparr>ret = EPBOT_ERR_NULL_HANDLE, handle' = None,
                      last_error = Some ''Null instance handle'', written = None\<rparr>
      | Some h \<Rightarrow>
         (case bid of
            None \<Rightarrow> Inr \<lparr>ret = EPBOT_ERR_BIDDING_FAILED, handle' = Some h,
                          last_error = Some ''Null bid string'', written = None\<rparr>
          | Some b \<Rightarrow>
             (case extend_auction (auction h) bid_index of
                None \<Rightarrow> Inl LoopNeverExits
              | Some auction1 \<Rightarrow>
                 if bid_index < 0 \<or> int (length auction1) \<le> bid_index then Inl OutOfBoundsWrite
                 else
                   (let h1 = h\<lparr>auction := auction1[nat bid_index := b]\<rparr> in
                    case bid_set eng (StdToManaged (Some b)) (instance' h1) of
                      (Throws m, e1) \<Rightarrow>
                        Inr \<lparr>ret = EPBOT_ERR_BIDDING_FAILED,
                             handle' = Some (h1\<lparr>instance' := e1\<rparr>),
                             last_error = Some (ManagedToStd m), written = None\<rparr>
                    | (Value _, e1) \<Rightarrow>
                        Inr \<lparr>ret = EPBOT_OK, handle' = Some (h1\<lparr>instance' := e1\<rparr>),
                             last_error = None, written = None\<rparr>))))"

definition epbot_get_bid ::
  "'e EPBotHandle option \<Rightarrow> int \<Rightarrow> bool \<Rightarrow> int \<Rightarrow> 'e result" where
  "epbot_get_bid inst bid_index buffer buffer_size =
     (case inst of
        None \<Rightarrow> \<lparr>ret = EPBOT_ERR_NULL_HANDLE, handle' = None,
                  last_error = Some ''Null instance handle'', written = None\<rparr>
      | Some h \<Rightarrow>
          if \<not> buffer \<or> buffer_size < 1 then
            \<lparr>ret = EPBOT_ERR_OUT_OF_MEMORY, handle' = Some h,
             last_error = Some ''Invalid buffer'', written = None\<rparr>
          else if bid_index < 0 \<or> bid_index \<ge> int (length (auction h)) then
            \<lparr>ret = EPBOT_ERR_BIDDING_FAILED, handle' = Some h,
             last_error = Some ''Bid index out of range'', written = None\<rparr>
          else
            (let bid = auction h ! nat bid_index in
             if int (length bid) \<ge> buffer_size then
               \<lparr>ret = EPBOT_ERR_OUT_OF_MEMORY, handle' = Some h,
                last_error = Some ''Buffer too small'', written = None\<rparr>
             else
               \<lparr>ret = EPBOT_OK, handle' = Some h, last_error = None,
                written = Some (copy_to_buffer bid buffer_size)\<rparr>))"

definition epbot_clear_auction :: "'e EPBotHandle option \<Rightarrow> 'e result" where
  "epbot_clear_auction inst =
     (case inst of
        None \<Rightarrow> \<lparr>ret = EPBOT_ERR_NULL_HANDLE, handle' = None,
                  last_error = Some ''Null instance handle'', written = None\<rparr>
      | Some h \<Rightarrow>
          \<lparr>ret = EPBOT_OK,
           handle' = Some (h\<lparr>auction := [], current_position := 0, auction_started := False\<rparr>),
           last_error = None, written = None\<rparr>)"

text \<open>
  \<open>is_complete\<close> says that the output pointer is not null; the third component is the
  value stored through it.
\<close>

definition epbot_is_auction_complete ::
  "'e EPBotHandle option \<Rightarrow> bool \<Rightarrow> EPBotError \<times> string option \<times> bool option" where
  "epbot_is_auction_complete inst is_complete =
     (case inst of
        None \<Rightarrow> (EPBOT_ERR_NULL_HANDLE, Some ''Null instance handle'', None)
      | Some h \<Rightarrow>
          if \<not> is_complete then (EPBOT_ERR_BIDDING_FAILED, Some ''Null output pointer'', None)
          else (EPBOT_OK, None, Some (IsAuctionComplete (auction h))))"

section \<open>The convention file reader\<close>

text \<open>
  The members of \<^verbatim>\<open>std::string\<close> the reader calls; \<open>None\<close> is \<^verbatim>\<open>std::string::npos\<close>.
  \<open>substr\<close> is only called at positions within the string, where it does not throw.
\<close>

fun find_char :: "string \<Rightarrow> char \<Rightarrow> nat option" where
  "find_char [] c = None"
| "find_char (x # xs) c = (if x = c then Some 0 else map_option Suc (find_char xs c))"

fun find_first_not_of :: "string \<Rightarrow> string \<Rightarrow> nat option" where
  "find_first_not_of [] cs = None"
| "find_first_not_of (x # xs) cs =
     (if x \<notin> set cs then Some 0 else map_option Suc (find_first_not_of xs cs))"

fun find_last_not_of :: "string \<Rightarrow> string \<Rightarrow> nat option" where
  "find_last_not_of [] cs = None"
| "find_last_not_of (x # xs) cs =
     (case find_last_not_of xs cs of
        Some i \<Rightarrow> Some (Suc i)
      | None \<Rightarrow> if x \<notin> set cs then Some 0 else None)"

definition substr :: "string \<Rightarrow> nat \<Rightarrow> nat \<Rightarrow> string" where
  "substr s pos n = take n (drop pos s)"

text \<open>
  \<^verbatim>\<open>std::stoi\<close> of the C++ standard library, base 10, as \<^verbatim>\<open>strtol\<close> reads: white space
  is skipped, then an optional sign, then the longest run of digits; what follows the
  digits is ignored. \<open>None\<close> stands for the two exceptions it throws, no digits
  (\<^verbatim>\<open>std::invalid_argument\<close>) and a value outside \<^verbatim>\<open>int\<close> (\<^verbatim>\<open>std::out_of_range\<close>); the
  reader catches both with \<^verbatim>\<open>catch (...)\<close>.
\<close>

definition isspace :: "char \<Rightarrow> bool" where
  "isspace c = (c \<in> set [CHR '' '', CHR 0x09, CHR 0x0A, CHR 0x0B, CHR 0x0C, CHR 0x0D])"

definition isdigit :: "char \<Rightarrow> bool" where
  "isdigit c = (c \<in> set ''0123456789'')"

definition decimal :: "string \<Rightarrow> int" where
  "decimal ds = foldl (\<lambda>acc c. acc * 10 + (of_char c - 48)) 0 ds"

definition stoi :: "string \<Rightarrow> int option" where
  "stoi str =
     (let s = dropWhile isspace str;
          negative = (s \<noteq> [] \<and> hd s = CHR ''-'');
          s1 = (if s \<noteq> [] \<and> (hd s = CHR ''-'' \<or> hd s = CHR ''+'') then tl s else s);
          digits = takeWhile isdigit s1
      in if digits = [] then None
         else (let v = (if negative then - decimal digits else decimal digits)
               in if v < - 2147483648 \<or> 2147483647 < v then None else Some v))"

text \<open>
  The lines \<^verbatim>\<open>std::getline\<close> delivers from the characters of the file: the text between
  newlines, and the text after the last newline when it is not empty.
\<close>

fun getlines_from :: "string \<Rightarrow> string \<Rightarrow> string list" where
  "getlines_from cur [] = (if cur = [] then [] else [cur])"
| "getlines_from cur (c # cs) =
     (if c = CHR 0x0A then cur # getlines_from [] cs else getlines_from (cur @ [c]) cs)"

definition getlines :: "string \<Rightarrow> string list" where
  "getlines content = getlines_from [] content"

text \<open>
  The body of the loop of \<^verbatim>\<open>ParseBbsaFile\<close> on one line. The map
  \<^verbatim>\<open>std::unordered_map<std::string, int>\<close> is an association list with one pair for a
  key; \<^verbatim>\<open>conventions[key] = value\<close> is \<open>AList.update\<close>.
\<close>

definition parse_line :: "(string \<times> int) list \<Rightarrow> string \<Rightarrow> (string \<times> int) list" where
  "parse_line conventions line0 =
     (if line0 = [] \<or> hd line0 = CHR ''#'' \<or> hd line0 = CHR '';'' then conventions
      else
        (let line = (if line0 \<noteq> [] \<and> last line0 = CHR 0x0D then butlast line0 else line0) in
         case find_char line (CHR ''='') of
           None \<Rightarrow> conventions
         | Some eq_pos \<Rightarrow>
            (let key0 = substr line 0 eq_pos;
                 value0 = drop (eq_pos + 1) line;
                 key = (case (find_first_not_of key0 [CHR '' '', CHR 0x09],
                              find_last_not_of key0 [CHR '' '', CHR 0x09]) of
                          (Some start, Some end_pos) \<Rightarrow> substr key0 start (end_pos - start + 1)
                        | _ \<Rightarrow> key0);
                 value_str =
                       (case (find_first_not_of value0 [CHR '' '', CHR 0x09],
                              find_last_not_of value0 [CHR '' '', CHR 0x09, CHR 0x0D, CHR 0x0A]) of
                          (Some start, Some end_pos) \<Rightarrow> substr value0 start (end_pos - start + 1)
                        | _ \<Rightarrow> value0)
             in case stoi value_str of
                  None \<Rightarrow> conventions
                | Some v \<Rightarrow> AList.update key v conventions)))"

text \<open>
  \<open>fs path\<close> is the content of the file at \<open>path\<close> as the stream delivers it, \<open>None\<close> when
  \<^verbatim>\<open>file.is_open()\<close> is false.
\<close>

definition ParseBbsaFile :: "(string \<Rightarrow> string option) \<Rightarrow> string \<Rightarrow> (string \<times> int) list" where
  "ParseBbsaFile fs path =
     (case fs path of
        None \<Rightarrow> []
      | Some content \<Rightarrow> foldl parse_line [] (getlines content))"

section \<open>Convention configuration\<close>

text \<open>The chain of comparisons of \<^verbatim>\<open>epbot_set_convention\<close>: the property a key names.\<close>

definition key_property :: "string \<Rightarrow> property option" where
  "key_property keyStr =
     (if keyStr = ''Bergen'' \<or> keyStr = ''Bergen raises'' then Some Bergen
      else if keyStr = ''Stayman'' then Some Stayman
      else if keyStr = ''Blackwood 0314'' then Some Blackwood_0314
      else if keyStr = ''Blackwood 1430'' then Some Blackwood_1430
      else if keyStr = ''Jacoby 2NT'' then Some Jacoby_2NT
      else if keyStr = ''Cappelletti'' then Some Cappelletti
      else if keyStr = ''Drury'' then Some Drury
      else if keyStr = ''Lebensohl'' then Some Lebensohl
      else if keyStr = ''Michaels Cuebid'' then Some Michaels_Cuebid
      else if keyStr = ''Splinter'' then Some Splinter
      else if keyStr = ''Texas Transfer'' then Some Texas_Transfer
      else if keyStr = ''Unusual 2NT'' then Some Unusual_2NT
      else None)"

definition epbot_set_convention ::
  "'e EPBot \<Rightarrow> 'e EPBotHandle option \<Rightarrow> string option \<Rightarrow> int \<Rightarrow> EPBotSide \<Rightarrow> 'e result" where
  "epbot_set_convention eng inst key value_v side =
     (case inst of
        None \<Rightarrow> \<lparr>ret = EPBOT_ERR_NULL_HANDLE, handle' = None,
                  last_error = Some ''Null instance handle'', written = None\<rparr>
      | Some h \<Rightarrow>
         (case key of
            None \<Rightarrow> \<lparr>ret = EPBOT_ERR_CLR_EXCEPTION, handle' = Some h,
                      last_error = Some ''Null convention key'', written = None\<rparr>
          | Some keyStr \<Rightarrow>
             (case key_property keyStr of
                None \<Rightarrow> \<lparr>ret = EPBOT_OK, handle' = Some h, last_error = None, written = None\<rparr>
              | Some p \<Rightarrow>
                 (case convention_set eng p value_v (instance' h) of
                    (Throws m, e1) \<Rightarrow>
                      \<lparr>ret = EPBOT_ERR_CLR_EXCEPTION, handle' = Some (h\<lparr>instance' := e1\<rparr>),
                       last_error = Some (ManagedToStd m), written = None\<rparr>
                  | (Value _, e1) \<Rightarrow>
                      \<lparr>ret = EPBOT_OK, handle' = Some (h\<lparr>instance' := e1\<rparr>),
                       last_error = None, written = None\<rparr>))))"

text \<open>
  \<^verbatim>\<open>key.c_str()\<close> read as a C string by the callee: the characters before the first zero
  byte.
\<close>

definition c_str :: "string \<Rightarrow> string" where
  "c_str s = takeWhile (\<lambda>c. c \<noteq> CHR 0x00) s"

text \<open>
  The loop \<^verbatim>\<open>for (const auto& [key, value] : conventions)\<close> of
  \<^verbatim>\<open>epbot_load_conventions\<close> over the entries in the order of the traversal: each key is
  passed as \<^verbatim>\<open>key.c_str()\<close>, the code each call returns is dropped; the struct and the
  error slot are what the calls leave.
\<close>

fun apply_conventions ::
  "'e EPBot \<Rightarrow> EPBotSide \<Rightarrow> (string \<times> int) list \<Rightarrow> 'e EPBotHandle option \<times> string option
     \<Rightarrow> 'e EPBotHandle option \<times> string option" where
  "apply_conventions eng side [] st = st"
| "apply_conventions eng side ((key, value_v) # rest) (inst, err) =
     (let r = epbot_set_convention eng inst (Some (c_str key)) value_v side
      in apply_conventions eng side rest
           (handle' r, case last_error r of None \<Rightarrow> err | Some m \<Rightarrow> Some m))"

text \<open>
  The order in which a \<^verbatim>\<open>std::unordered_map\<close> is traversed is unspecified. It is a
  parameter: \<open>traversal m\<close> is the list of the entries of \<open>m\<close> in the order the
  implementation visits them, a permutation of \<open>m\<close>. The theorems that depend on it
  assume no more than that.
\<close>

definition epbot_load_conventions ::
  "'e EPBot \<Rightarrow> (string \<Rightarrow> string option) \<Rightarrow> ((string \<times> int) list \<Rightarrow> (string \<times> int) list)
     \<Rightarrow> 'e EPBotHandle option \<Rightarrow> string option \<Rightarrow> EPBotSide \<Rightarrow> 'e result" where
  "epbot_load_conventions eng fs traversal inst file_path side =
     (case inst of
        None \<Rightarrow> \<lparr>ret = EPBOT_ERR_NULL_HANDLE, handle' = None,
                  last_error = Some ''Null instance handle'', written = None\<rparr>
      | Some h \<Rightarrow>
         (case file_path of
            None \<Rightarrow> \<lparr>ret = EPBOT_ERR_INVALID_CONVENTION_FILE, handle' = Some h,
                      last_error = Some ''Null file path'', written = None\<rparr>
          | Some path \<Rightarrow>
             (let conventions = ParseBbsaFile fs path in
              if conventions = [] then
                \<lparr>ret = EPBOT_ERR_INVALID_CONVENTION_FILE, handle' = Some h,
                 last_error = Some ''Failed to parse convention file or file is empty'',
                 written = None\<rparr>
              else
                (case apply_conventions eng side (traversal conventions) (Some h, None) of
                   (inst1, err) \<Rightarrow>
                     \<lparr>ret = EPBOT_OK, handle' = inst1, last_error = err, written = None\<rparr>))))"

section \<open>The line rules of the specification\<close>

text \<open>
  The specification's words for a line of the convention file: the text before the first
  \<^verbatim>\<open>=\<close> is the key and the text after it the value, of the line without its trailing
  carriage return; both are trimmed of leading and trailing white space (space and tab),
  the value also of trailing carriage returns and newlines.
\<close>

definition blank :: "char \<Rightarrow> bool" where
  "blank c = (c = CHR '' '' \<or> c = CHR 0x09)"

definition blank_or_eol :: "char \<Rightarrow> bool" where
  "blank_or_eol c = (c = CHR '' '' \<or> c = CHR 0x09 \<or> c = CHR 0x0D \<or> c = CHR 0x0A)"

definition trim_key :: "string \<Rightarrow> string" where
  "trim_key k = dropWhile blank (rev (dropWhile blank (rev k)))"

definition trim_value :: "string \<Rightarrow> string" where
  "trim_value v = dropWhile blank (rev (dropWhile blank_or_eol (rev v)))"

definition strip_cr :: "string \<Rightarrow> string" where
  "strip_cr line = (if line \<noteq> [] \<and> last line = CHR 0x0D then butlast line else line)"

definition key_text :: "string \<Rightarrow> string" where
  "key_text line = takeWhile (\<lambda>c. c \<noteq> CHR ''='') (strip_cr line)"

definition value_text :: "string \<Rightarrow> string" where
  "value_text line = drop 1 (dropWhile (\<lambda>c. c \<noteq> CHR ''='') (strip_cr line))"

text \<open>
  What lines 93 to 97 of the source compute from the text before the first \<^verbatim>\<open>=\<close>.
\<close>

definition kept_key :: "string \<Rightarrow> string" where
  "kept_key k = (if list_all blank k then k else trim_key k)"

text \<open>
  A line that gives an entry whatever its key is: not blank, not a comment, with a
  \<^verbatim>\<open>=\<close> and a trimmed value that \<^verbatim>\<open>std::stoi\<close> accepts.
\<close>

definition entry_line :: "string \<Rightarrow> bool" where
  "entry_line line =
     (line \<noteq> [] \<and> hd line \<noteq> CHR ''#'' \<and> hd line \<noteq> CHR '';'' \<and> CHR ''='' \<in> set line \<and>
      stoi (trim_value (value_text line)) \<noteq> None)"

text \<open>
  A valid entry in the specification's words: such a line whose key is not empty after
  trimming.
\<close>

definition valid_entry_line :: "string \<Rightarrow> bool" where
  "valid_entry_line line = (entry_line line \<and> trim_key (key_text line) \<noteq> [])"

section \<open>A recording engine\<close>

text \<open>
  An engine whose state is the list of the accesses made to it. It recommends a fixed
  bid, and its convention setters throw when \<open>faulty\<close>.
\<close>

datatype engine_call =
    Put_Position int | Get_bid | Put_bid managed_string | Put_convention property int

definition recording_engine :: "managed_string \<Rightarrow> bool \<Rightarrow> (engine_call list) EPBot" where
  "recording_engine recommendation faulty =
     \<lparr>Position_set = (\<lambda>p log. (Value (), log @ [Put_Position p])),
      bid_get = (\<lambda>log. (Value recommendation, log @ [Get_bid])),
      bid_set = (\<lambda>s log. (Value (), log @ [Put_bid s])),
      convention_set = (\<lambda>p v log.
         (if faulty then Throws (Some ''convention rejected'') else Value (),
          log @ [Put_convention p v]))\<rparr>"

definition new_handle :: "'e \<Rightarrow> 'e EPBotHandle" where
  "new_handle e =
     \<lparr>instance' = e, auction = [], current_position = 0, dealer = DEALER_NORTH,
      auction_started = False\<rparr>"

text \<open>A file system of three paths: a convention file, a file of one comment, no file.\<close>

definition sample_fs :: "string \<Rightarrow> string option" where
  "sample_fs p =
     (if p = ''ns.bbsa'' then
        Some (''Stayman = 1'' @ [CHR 0x0A] @ ''Unknown = 7'' @ [CHR 0x0A] @ ''Drury = 0'')
      else if p = ''empty.bbsa'' then Some ''# nothing''
      else None)"

section \<open>Properties of the termination rule\<close>

lemma has_bid_iff: "has_bid a = list_ex (\<lambda>t. \<not> pass_token t) a"
  by (induction a) (auto simp: pass_token_def)

lemma IsAuctionComplete_unfold:
  "IsAuctionComplete a =
     (4 \<le> length a \<and>
      (list_ex (\<lambda>t. \<not> pass_token t) a \<longrightarrow>
         pass_token (a ! (length a - 1)) \<and> pass_token (a ! (length a - 2)) \<and>
         pass_token (a ! (length a - 3))))"
  by (auto simp: IsAuctionComplete_def has_bid_iff pass_token_def Let_def)

text \<open>
  C1. \<open>IsAuctionComplete\<close> is the termination rule of the specification: a sequence of
  fewer than 4 entries is not complete; a sequence with no non-pass token is complete
  iff it has at least 4 entries; a sequence with a non-pass token is complete iff it has
  three last entries and they are all pass tokens. \<open>epbot_is_auction_complete\<close> stores
  the value of \<open>IsAuctionComplete\<close> on the instance's sequence, and the guard of
  \<open>epbot_get_next_bid\<close> is the same function.
\<close>

theorem IsAuctionComplete_termination_rule:
  "(length a < 4 \<longrightarrow> \<not> IsAuctionComplete a) \<and>
   (list_all pass_token a \<longrightarrow> (IsAuctionComplete a \<longleftrightarrow> 4 \<le> length a)) \<and>
   (list_ex (\<lambda>t. \<not> pass_token t) a \<longrightarrow>
      (IsAuctionComplete a \<longleftrightarrow>
         3 \<le> length a \<and> pass_token (a ! (length a - 1)) \<and>
         pass_token (a ! (length a - 2)) \<and> pass_token (a ! (length a - 3)))) \<and>
   epbot_is_auction_complete (Some h) True =
     (EPBOT_OK, None, Some (IsAuctionComplete (auction h)))"
proof (intro conjI impI)
  show "epbot_is_auction_complete (Some h) True =
     (EPBOT_OK, None, Some (IsAuctionComplete (auction h)))"
    by (simp add: epbot_is_auction_complete_def)
next
  assume "length a < 4"
  then show "\<not> IsAuctionComplete a"
    by (simp add: IsAuctionComplete_unfold)
next
  assume "list_all pass_token a"
  then have "\<not> list_ex (\<lambda>t. \<not> pass_token t) a"
    by (simp add: list_all_iff list_ex_iff)
  then show "IsAuctionComplete a \<longleftrightarrow> 4 \<le> length a"
    by (simp add: IsAuctionComplete_unfold)
next
  assume ex: "list_ex (\<lambda>t. \<not> pass_token t) a"
  let ?n = "length a"
  let ?tail = "pass_token (a ! (?n - 1)) \<and> pass_token (a ! (?n - 2)) \<and> pass_token (a ! (?n - 3))"
  have short: "\<not> ?tail" if "?n = 3"
  proof
    assume t: ?tail
    from that obtain x y z where a: "a = [x, y, z]"
      by (cases a; cases "tl a"; cases "tl (tl a)"; cases "tl (tl (tl a))") auto
    from t ex show False by (simp add: a)
  qed
  show "IsAuctionComplete a \<longleftrightarrow> 3 \<le> ?n \<and> ?tail"
  proof (cases "4 \<le> ?n")
    case True
    with ex show ?thesis by (simp add: IsAuctionComplete_unfold)
  next
    case False
    then have "\<not> IsAuctionComplete a" by (simp add: IsAuctionComplete_unfold)
    moreover have "\<not> (3 \<le> ?n \<and> ?tail)"
    proof (cases "?n = 3")
      case True
      then show ?thesis using short by blast
    next
      case False
      with \<open>\<not> 4 \<le> ?n\<close> show ?thesis by simp
    qed
    ultimately show ?thesis by blast
  qed
qed

theorem IsAuctionComplete_termination_rule_witness:
  "\<not> IsAuctionComplete [''1H'', ''Pass'', ''Pass''] \<and>
   IsAuctionComplete [''Pass'', ''P'', ''Pass'', ''Pass''] \<and>
   IsAuctionComplete [''1H'', ''Pass'', ''X'', ''Pass'', ''Pass'', ''Pass''] \<and>
   epbot_is_auction_complete
     (Some ((new_handle ())\<lparr>auction := [''1H'', ''Pass'', ''Pass'', ''Pass'']\<rparr>)) True =
     (EPBOT_OK, None, Some True)"
  using IsAuctionComplete_termination_rule [of "[''1H'', ''Pass'', ''Pass'']" "new_handle ()"]
        IsAuctionComplete_termination_rule [of "[''Pass'', ''P'', ''Pass'', ''Pass'']" "new_handle ()"]
        IsAuctionComplete_termination_rule
          [of "[''1H'', ''Pass'', ''X'', ''Pass'', ''Pass'', ''Pass'']" "new_handle ()"]
        IsAuctionComplete_termination_rule
          [of "[''1H'', ''Pass'', ''Pass'', ''Pass'']"
              "(new_handle ())\<lparr>auction := [''1H'', ''Pass'', ''Pass'', ''Pass'']\<rparr>"]
  by (simp add: pass_token_def)

section \<open>Pass detection\<close>

lemma IsAuctionComplete_pass_pattern:
  assumes "map pass_token a = map pass_token b"
  shows "IsAuctionComplete a = IsAuctionComplete b"
proof -
  from assms have len: "length a = length b"
    by (rule map_eq_imp_length_eq)
  have nth: "pass_token (a ! i) = pass_token (b ! i)" if "i < length a" for i
  proof -
    from that have "map pass_token a ! i = pass_token (a ! i)" by simp
    moreover from that len have "map pass_token b ! i = pass_token (b ! i)" by simp
    ultimately show ?thesis using assms by simp
  qed
  have "list_ex (\<lambda>t. \<not> pass_token t) a = (False \<in> set (map pass_token a))"
    by (auto simp: list_ex_iff)
  moreover have "list_ex (\<lambda>t. \<not> pass_token t) b = (False \<in> set (map pass_token b))"
    by (auto simp: list_ex_iff)
  ultimately have ex: "list_ex (\<lambda>t. \<not> pass_token t) a = list_ex (\<lambda>t. \<not> pass_token t) b"
    using assms by simp
  show ?thesis
  proof (cases "4 \<le> length a")
    case True
    then have "pass_token (a ! (length a - 1)) = pass_token (b ! (length b - 1))"
      and "pass_token (a ! (length a - 2)) = pass_token (b ! (length b - 2))"
      and "pass_token (a ! (length a - 3)) = pass_token (b ! (length b - 3))"
      using nth len by simp_all
    with ex len show ?thesis by (simp add: IsAuctionComplete_unfold)
  next
    case False
    with len show ?thesis by (simp add: IsAuctionComplete_unfold)
  qed
qed

text \<open>
  C2, as the code has it. The comparisons of \<open>IsAuctionComplete\<close> are exact: the pass
  tokens are the two strings \<^verbatim>\<open>"Pass"\<close> and \<^verbatim>\<open>"P"\<close>. Replacing a pass token of a sequence
  by either of these two forms does not change the result of \<open>IsAuctionComplete\<close>.
\<close>

theorem IsAuctionComplete_pass_forms:
  assumes "i < length a" and "pass_token (a ! i)" and "pass_token t"
  shows "IsAuctionComplete (a[i := t]) = IsAuctionComplete a"
proof -
  have "map pass_token (a[i := t]) = (map pass_token a)[i := pass_token t]"
    by (simp add: map_update)
  also have "\<dots> = (map pass_token a)[i := map pass_token a ! i]"
    using assms by simp
  also have "\<dots> = map pass_token a"
    by (rule list_update_id)
  finally show ?thesis by (rule IsAuctionComplete_pass_pattern)
qed

theorem IsAuctionComplete_pass_forms_witness:
  "IsAuctionComplete ([''1H'', ''Pass'', ''Pass'', ''Pass''][2 := ''P'']) =
   IsAuctionComplete [''1H'', ''Pass'', ''Pass'', ''Pass'']"
  using IsAuctionComplete_pass_forms [of 2 "[''1H'', ''Pass'', ''Pass'', ''Pass'']" "''P''"]
  by (simp add: pass_token_def)

text \<open>
  C2, as the claim states it, fails: a case variant of a pass token is not a pass token.
  The sequence 1H, Pass, Pass, Pass is complete; with its last entry replaced by
  \<^verbatim>\<open>"pass"\<close>, \<^verbatim>\<open>"PASS"\<close> or \<^verbatim>\<open>"p"\<close> it is not.
\<close>

theorem IsAuctionComplete_case_sensitive:
  "IsAuctionComplete [''1H'', ''Pass'', ''Pass'', ''Pass''] \<and>
   \<not> IsAuctionComplete ([''1H'', ''Pass'', ''Pass'', ''Pass''][3 := ''pass'']) \<and>
   \<not> IsAuctionComplete ([''1H'', ''Pass'', ''Pass'', ''Pass''][3 := ''PASS'']) \<and>
   \<not> IsAuctionComplete ([''1H'', ''Pass'', ''Pass'', ''Pass''][3 := ''p''])"
  by (simp add: IsAuctionComplete_def)

section \<open>Asking for a bid\<close>

text \<open>
  C3. For every instance whose bid sequence satisfies the termination rule,
  \<open>epbot_get_next_bid\<close> leaves the struct as it was (bid sequence, cursor, started flag
  and engine state) and writes nothing to the buffer, whatever the buffer arguments
  are; called with a buffer that passes the argument check (not null, capacity at least
  1) it returns \<open>EPBOT_ERR_AUCTION_COMPLETE\<close>. The result does not mention the engine
  \<open>eng\<close>: no operation of the engine is used.
\<close>

theorem epbot_get_next_bid_after_completion:
  assumes "IsAuctionComplete (auction h)"
  shows "handle' (epbot_get_next_bid eng (Some h) buffer buffer_size) = Some h \<and>
         written (epbot_get_next_bid eng (Some h) buffer buffer_size) = None \<and>
         (buffer \<and> 1 \<le> buffer_size \<longrightarrow>
            epbot_get_next_bid eng (Some h) buffer buffer_size =
              \<lparr>ret = EPBOT_ERR_AUCTION_COMPLETE, handle' = Some h,
               last_error = Some ''Auction is complete'', written = None\<rparr>)"
  using assms by (simp add: epbot_get_next_bid_def)

theorem epbot_get_next_bid_after_completion_witness:
  "epbot_get_next_bid (recording_engine (Some ''1NT'') False)
     (Some ((new_handle [])\<lparr>auction := [''1H'', ''Pass'', ''Pass'', ''Pass'']\<rparr>)) True 8 =
   \<lparr>ret = EPBOT_ERR_AUCTION_COMPLETE,
    handle' = Some \<lparr>instance' = [], auction = [''1H'', ''Pass'', ''Pass'', ''Pass''],
                   current_position = 0, dealer = DEALER_NORTH, auction_started = False\<rparr>,
    last_error = Some ''Auction is complete'', written = None\<rparr>"
  using epbot_get_next_bid_after_completion
    [of "(new_handle [])\<lparr>auction := [''1H'', ''Pass'', ''Pass'', ''Pass'']\<rparr>"
        "recording_engine (Some ''1NT'') False" True 8]
  by (simp add: IsAuctionComplete_def new_handle_def)

text \<open>
  What \<open>epbot_get_next_bid\<close> and \<open>epbot_get_bid\<close> store through the buffer pointer is
  exactly \<open>buffer_size\<close> bytes long: no byte is written past the buffer.
\<close>

lemma copy_to_buffer_length:
  "1 \<le> buffer_size \<Longrightarrow> int (length (copy_to_buffer bid buffer_size)) = buffer_size"
  by (simp add: copy_to_buffer_def strncpy_def Let_def min_def)

lemma epbot_get_next_bid_written_length:
  assumes "written (epbot_get_next_bid eng inst buffer buffer_size) = Some bytes"
  shows "int (length bytes) = buffer_size"
proof -
  from assms have "1 \<le> buffer_size \<and> (\<exists>bid. bytes = copy_to_buffer bid buffer_size)"
    by (auto simp: epbot_get_next_bid_def Let_def
        split: option.splits if_splits prod.splits managed.splits)
  then show ?thesis by (auto simp: copy_to_buffer_length)
qed

lemma epbot_get_bid_written_length:
  assumes "written (epbot_get_bid inst bid_index buffer buffer_size) = Some bytes"
  shows "int (length bytes) = buffer_size"
proof -
  from assms have "1 \<le> buffer_size \<and> (\<exists>bid. bytes = copy_to_buffer bid buffer_size)"
    by (auto simp: epbot_get_bid_def Let_def split: option.splits if_splits)
  then show ?thesis by (auto simp: copy_to_buffer_length)
qed

text \<open>
  C4, what the code does. When the engine recommends a bid that does not fit the buffer,
  \<open>epbot_get_next_bid\<close> returns \<open>EPBOT_ERR_OUT_OF_MEMORY\<close> and writes nothing to the
  buffer, but the struct has changed: the bid is appended to the sequence, the cursor is
  advanced and the started flag is set. The witness is the call on a new instance with a
  buffer of 3 bytes and the recommendation 1NT.
\<close>

theorem epbot_get_next_bid_small_buffer_records_bid:
  assumes "\<not> IsAuctionComplete (auction h)" and "buffer" and "1 \<le> buffer_size"
    and "Position_set eng (GetCurrentBidderPosition h) (instance' h) = (Value (), e1)"
    and "bid_get eng e1 = (Value (Some bid), e2)"
    and "bid \<noteq> []" and "CHR 0x00 \<notin> set bid"
    and "buffer_size \<le> int (length bid)"
  shows "epbot_get_next_bid eng (Some h) buffer buffer_size =
           \<lparr>ret = EPBOT_ERR_OUT_OF_MEMORY,
            handle' = Some (h\<lparr>instance' := e2, auction := auction h @ [bid],
                              current_position := current_position h + 1,
                              auction_started := True\<rparr>),
            last_error = Some ''Buffer too small'', written = None\<rparr>"
proof -
  have "takeWhile (\<lambda>c. c \<noteq> CHR 0x00) bid = bid"
    using assms(7) by (auto simp: takeWhile_eq_all_conv)
  then have "ManagedToStd (Some bid) = bid"
    by (simp add: ManagedToStd_def)
  with assms show ?thesis
    by (simp add: epbot_get_next_bid_def Let_def)
qed

theorem epbot_get_next_bid_small_buffer_records_bid_witness:
  "epbot_get_next_bid (recording_engine (Some ''1NT'') False) (Some (new_handle [])) True 3 =
     \<lparr>ret = EPBOT_ERR_OUT_OF_MEMORY,
      handle' = Some \<lparr>instance' = [Put_Position 0, Get_bid], auction = [''1NT''],
                     current_position = 1, dealer = DEALER_NORTH, auction_started = True\<rparr>,
      last_error = Some ''Buffer too small'', written = None\<rparr>"
  using epbot_get_next_bid_small_buffer_records_bid
    [of "new_handle []" True 3 "recording_engine (Some ''1NT'') False" "[Put_Position 0]"
        "''1NT''" "[Put_Position 0, Get_bid]"]
  by (simp add: recording_engine_def new_handle_def IsAuctionComplete_def
      GetCurrentBidderPosition_def signed_modulo_int_def signed_divide_int_def)

section \<open>Recording and reading a bid by index\<close>

lemma cast_int_small: "n \<le> 2147483647 \<Longrightarrow> cast_int n = int n"
  by (simp add: cast_int_def)

lemma cast_int_le: "cast_int n \<le> 2147483647"
proof -
  have "(int n + 2147483648) mod 4294967296 < 4294967296"
    by (rule pos_mod_bound) simp
  then show ?thesis by (simp add: cast_int_def)
qed

lemma cast_int_Suc:
  assumes "cast_int n < 2147483647"
  shows "cast_int (Suc n) = cast_int n + 1"
proof -
  let ?x = "(int n + 2147483648) mod 4294967296"
  have x0: "0 \<le> ?x" by (rule pos_mod_sign) simp
  from assms have x1: "?x + 1 < 4294967296" by (simp add: cast_int_def)
  have "int (Suc n) + 2147483648 = (int n + 2147483648) + 1" by simp
  then have "(int (Suc n) + 2147483648) mod 4294967296 =
      ((int n + 2147483648) + 1) mod 4294967296" by (rule arg_cong)
  also have "\<dots> = (?x + 1) mod 4294967296"
    by (rule mod_add_left_eq[symmetric])
  also have "\<dots> = ?x + 1"
    using x0 x1 by (intro mod_pos_pos_trivial) simp_all
  finally show ?thesis by (simp add: cast_int_def)
qed

text \<open>
  Below \<^verbatim>\<open>INT_MAX\<close> the loop exits, with the empty tokens it has appended.
\<close>

lemma extend_auction_eq:
  "i < 2147483647 \<Longrightarrow>
   extend_auction a i = Some (a @ replicate (nat (i + 1 - cast_int (length a))) '''')"
proof (induction "nat (i + 1 - cast_int (length a))" arbitrary: a)
  case 0
  then have "\<not> cast_int (length a) \<le> i" by simp
  with 0 show ?case by (subst extend_auction.simps) simp
next
  case (Suc k)
  then have le: "cast_int (length a) \<le> i" by simp
  with Suc.prems have "cast_int (length a) < 2147483647" by simp
  then have c: "cast_int (length (a @ [''''])) = cast_int (length a) + 1"
    by (simp add: cast_int_Suc)
  with Suc.hyps(2) have k: "k = nat (i + 1 - cast_int (length (a @ [''''])))" by simp
  have "extend_auction a i = extend_auction (a @ ['''']) i"
    using le by (subst extend_auction.simps) simp
  also have "\<dots> = Some ((a @ ['''']) @ replicate k '''')"
    using Suc.hyps(1)[OF k Suc.prems] k by simp
  also have "(a @ ['''']) @ replicate k '''' = a @ replicate (Suc k) ''''"
    by (simp add: replicate_app_Cons_same)
  finally show ?case using Suc.hyps(2) by simp
qed

text \<open>At \<^verbatim>\<open>INT_MAX\<close> it does not: an index the loop returns for is below it.\<close>

lemma extend_auction_returns_bound:
  assumes "extend_auction a i = Some y"
  shows "i < 2147483647"
proof (rule extend_auction.raw_induct[where P = "\<lambda>a i y. i < 2147483647", OF _ assms])
  fix f :: "string list \<Rightarrow> int \<Rightarrow> string list option" and b j z
  assume IH: "\<And>a i y. f a i = Some y \<Longrightarrow> i < 2147483647"
    and eq: "(if cast_int (length b) \<le> j then f (b @ ['''']) j else Some b) = Some z"
  show "j < 2147483647"
  proof (cases "cast_int (length b) \<le> j")
    case True
    with eq have "f (b @ ['''']) j = Some z" by simp
    then show ?thesis by (rule IH)
  next
    case False
    with cast_int_le[of "length b"] show ?thesis by simp
  qed
qed

lemma extend_auction_never_exits: "extend_auction a 2147483647 = None"
proof (cases "extend_auction a 2147483647")
  case None
  then show ?thesis .
next
  case (Some y)
  then have "(2147483647::int) < 2147483647" by (rule extend_auction_returns_bound)
  then show ?thesis by simp
qed

lemma epbot_set_bid_int_max:
  "epbot_set_bid eng (Some h) 2147483647 (Some b) = Inl LoopNeverExits"
  by (simp add: epbot_set_bid_def extend_auction_never_exits)

text \<open>
  An index outside the sequence is rejected by \<open>epbot_get_bid\<close> before any element is
  read, when the buffer arguments pass their check.
\<close>

lemma epbot_get_bid_out_of_range:
  "buffer \<Longrightarrow> 1 \<le> buffer_size \<Longrightarrow>
   bid_index < 0 \<or> int (length (auction h)) \<le> bid_index \<Longrightarrow>
   epbot_get_bid (Some h) bid_index buffer buffer_size =
     \<lparr>ret = EPBOT_ERR_BIDDING_FAILED, handle' = Some h,
      last_error = Some ''Bid index out of range'', written = None\<rparr>"
  by (auto simp: epbot_get_bid_def)

text \<open>
  C5, what the code does. \<open>epbot_set_bid\<close> does not compare a negative index with
  anything: the loop exits and the assignment \<^verbatim>\<open>handle->auction[bid_index] = bid\<close>
  is outside the vector. No error code is returned.
\<close>

theorem epbot_set_bid_negative_index:
  "bid_index < 0 \<Longrightarrow> epbot_set_bid eng (Some h) bid_index (Some b) = Inl OutOfBoundsWrite"
  by (simp add: epbot_set_bid_def extend_auction_eq)

theorem epbot_set_bid_negative_index_witness:
  "epbot_set_bid (recording_engine None False) (Some (new_handle [])) (- 1) (Some ''1H'') =
     Inl OutOfBoundsWrite"
  using epbot_set_bid_negative_index
    [of "- 1" "recording_engine None False" "new_handle []" "''1H''"]
  by simp

text \<open>
  C8. \<open>epbot_set_bid\<close> at a 0-based index \<open>i\<close> below \<^verbatim>\<open>INT_MAX\<close>, on a sequence whose
  size fits \<^verbatim>\<open>int\<close>, returns with the token at index \<open>i\<close>; the sequence has grown to
  \<open>i + 1\<close> entries when it was shorter and has kept its length otherwise; the other
  entries it had are unchanged and the entries added before \<open>i\<close> are the empty token; the
  cursor, the started flag and the dealer are unchanged. This holds whether or not the
  engine accepts the token. On an empty auction, index 5 and token 2C give five empty
  tokens followed by 2C.
\<close>

theorem epbot_set_bid_writes_at_index:
  "(0 \<le> i \<and> i < 2147483647 \<and> length (auction h) \<le> 2147483647 \<longrightarrow>
     (\<exists>r h1. epbot_set_bid eng (Some h) i (Some tok) = Inr r \<and> handle' r = Some h1 \<and>
        length (auction h1) = max (length (auction h)) (nat i + 1) \<and>
        auction h1 ! nat i = tok \<and>
        (\<forall>j. j < length (auction h) \<and> j \<noteq> nat i \<longrightarrow> auction h1 ! j = auction h ! j) \<and>
        (\<forall>j. length (auction h) \<le> j \<and> j < nat i \<longrightarrow> auction h1 ! j = '''') \<and>
        current_position h1 = current_position h \<and>
        auction_started h1 = auction_started h \<and> dealer h1 = dealer h)) \<and>
   (auction h = [] \<longrightarrow>
     (\<exists>r h1. epbot_set_bid eng (Some h) 5 (Some ''2C'') = Inr r \<and> handle' r = Some h1 \<and>
        auction h1 = ['''', '''', '''', '''', '''', ''2C''] \<and>
        current_position h1 = current_position h))"
proof (intro conjI impI)
  assume hyp: "0 \<le> i \<and> i < 2147483647 \<and> length (auction h) \<le> 2147483647"
  then have i: "0 \<le> i" and bound: "i < 2147483647"
    and fits: "cast_int (length (auction h)) = int (length (auction h))"
    by (simp_all add: cast_int_small)
  obtain out e1 where bs: "bid_set eng (StdToManaged (Some tok)) (instance' h) = (out, e1)"
    by (cases "bid_set eng (StdToManaged (Some tok)) (instance' h)")
  let ?a1 = "auction h @ replicate (nat (i + 1 - int (length (auction h)))) ''''"
  have ext: "extend_auction (auction h) i = Some ?a1"
    using bound by (simp add: extend_auction_eq fits)
  have len: "length ?a1 = max (length (auction h)) (nat i + 1)"
    using i by (simp add: max_def) linarith
  have inr: "nat i < length ?a1" using len by simp
  show "\<exists>r h1. epbot_set_bid eng (Some h) i (Some tok) = Inr r \<and> handle' r = Some h1 \<and>
        length (auction h1) = max (length (auction h)) (nat i + 1) \<and>
        auction h1 ! nat i = tok \<and>
        (\<forall>j. j < length (auction h) \<and> j \<noteq> nat i \<longrightarrow> auction h1 ! j = auction h ! j) \<and>
        (\<forall>j. length (auction h) \<le> j \<and> j < nat i \<longrightarrow> auction h1 ! j = '''') \<and>
        current_position h1 = current_position h \<and>
        auction_started h1 = auction_started h \<and> dealer h1 = dealer h"
    using i bs inr
    by (cases out)
       (auto simp: epbot_set_bid_def ext Let_def nth_append nth_list_update max_def)
next
  assume empty: "auction h = []"
  obtain out e1 where bs: "bid_set eng (StdToManaged (Some ''2C'')) (instance' h) = (out, e1)"
    by (cases "bid_set eng (StdToManaged (Some ''2C'')) (instance' h)")
  have six: "replicate 6 ('''' :: string) = ['''', '''', '''', '''', '''', '''']"
    by (simp add: eval_nat_numeral)
  have ext: "extend_auction [] 5 = Some (replicate 6 '''')"
    by (simp add: extend_auction_eq cast_int_small)
  show "\<exists>r h1. epbot_set_bid eng (Some h) 5 (Some ''2C'') = Inr r \<and> handle' r = Some h1 \<and>
        auction h1 = ['''', '''', '''', '''', '''', ''2C''] \<and>
        current_position h1 = current_position h"
    using empty bs
    by (cases out) (auto simp: epbot_set_bid_def ext Let_def six)
qed

theorem epbot_set_bid_writes_at_index_witness:
  "\<exists>r h1. epbot_set_bid (recording_engine None False) (Some (new_handle [])) 5 (Some ''2C'') = Inr r \<and>
     handle' r = Some h1 \<and> length (auction h1) = 6 \<and> auction h1 ! 5 = ''2C'' \<and>
     auction h1 = ['''', '''', '''', '''', '''', ''2C''] \<and> current_position h1 = 0"
  using epbot_set_bid_writes_at_index
    [of 5 "new_handle []" "recording_engine None False" "''2C''"]
  by (auto simp: new_handle_def)

section \<open>Clearing the auction\<close>

text \<open>
  C9. For every instance \<open>epbot_clear_auction\<close> returns \<open>EPBOT_OK\<close> with an empty bid
  sequence, the cursor at 0 and the started flag false; the dealer field and the engine
  state, which holds vulnerability, hand and conventions, are as before.
\<close>

theorem epbot_clear_auction_frame:
  "\<exists>h1. epbot_clear_auction (Some h) =
          \<lparr>ret = EPBOT_OK, handle' = Some h1, last_error = None, written = None\<rparr> \<and>
        auction h1 = [] \<and> current_position h1 = 0 \<and> \<not> auction_started h1 \<and>
        dealer h1 = dealer h \<and> instance' h1 = instance' h"
  by (simp add: epbot_clear_auction_def)

theorem epbot_clear_auction_frame_witness:
  "\<exists>h1. epbot_clear_auction
          (Some \<lparr>instance' = [Put_convention Stayman 1], auction = [''1H'', ''Pass''],
                 current_position = 2, dealer = DEALER_SOUTH, auction_started = True\<rparr>) =
          \<lparr>ret = EPBOT_OK, handle' = Some h1, last_error = None, written = None\<rparr> \<and>
        auction h1 = [] \<and> current_position h1 = 0 \<and> \<not> auction_started h1 \<and>
        dealer h1 = DEALER_SOUTH \<and> instance' h1 = [Put_convention Stayman 1]"
  using epbot_clear_auction_frame
    [of "\<lparr>instance' = [Put_convention Stayman 1], auction = [''1H'', ''Pass''],
          current_position = 2, dealer = DEALER_SOUTH, auction_started = True\<rparr>"]
  by simp

section \<open>The side argument\<close>

lemma apply_conventions_side:
  "apply_conventions eng side cs st = apply_conventions eng side' cs st"
  by (induction eng side cs st rule: apply_conventions.induct)
     (simp_all add: epbot_set_convention_def)

text \<open>
  C10. The side argument has no effect: \<open>epbot_set_convention\<close> called for NS and for EW
  gives the same code, the same struct with the same engine state and the same error
  message, and so does \<open>epbot_load_conventions\<close>, which passes the argument on, in
  whatever order the map is traversed.
\<close>

theorem epbot_set_convention_ignores_side:
  "epbot_set_convention eng inst key v SIDE_NS = epbot_set_convention eng inst key v SIDE_EW \<and>
   epbot_load_conventions eng fs traversal inst path SIDE_NS =
     epbot_load_conventions eng fs traversal inst path SIDE_EW"
proof -
  have same: "apply_conventions eng SIDE_NS = apply_conventions eng SIDE_EW"
    by (intro ext) (rule apply_conventions_side)
  show ?thesis
    unfolding epbot_set_convention_def epbot_load_conventions_def same by simp
qed

section \<open>The convention file reader: line rules\<close>

lemma find_char_eq:
  "find_char s c = (if c \<in> set s then Some (length (takeWhile (\<lambda>x. x \<noteq> c) s)) else None)"
  by (induction s) auto

lemma find_first_not_of_eq:
  "find_first_not_of s cs =
     (if list_all (\<lambda>x. x \<in> set cs) s then None
      else Some (length (takeWhile (\<lambda>x. x \<in> set cs) s)))"
  by (induction s) auto

lemma find_last_not_of_eq:
  "find_last_not_of s cs =
     (if list_all (\<lambda>x. x \<in> set cs) s then None
      else Some (length (dropWhile (\<lambda>x. x \<in> set cs) (rev s)) - 1))"
proof (induction s)
  case Nil
  show ?case by simp
next
  case (Cons x xs)
  show ?case
  proof (cases "list_all (\<lambda>x. x \<in> set cs) xs")
    case True
    then have dw: "dropWhile (\<lambda>x. x \<in> set cs) (rev xs @ [x]) = dropWhile (\<lambda>x. x \<in> set cs) [x]"
      by (intro dropWhile_append2) (auto simp: list_all_iff)
    from True Cons show ?thesis by (simp add: dw)
  next
    case False
    then obtain y where y: "y \<in> set (rev xs)" "y \<notin> set cs"
      by (auto simp: list_all_iff)
    then have dw: "dropWhile (\<lambda>x. x \<in> set cs) (rev xs @ [x]) =
        dropWhile (\<lambda>x. x \<in> set cs) (rev xs) @ [x]"
      by (intro dropWhile_append1[of y]) auto
    from y have "dropWhile (\<lambda>x. x \<in> set cs) (rev xs) \<noteq> []"
      by auto
    then have "0 < length (dropWhile (\<lambda>x. x \<in> set cs) (rev xs))" by simp
    with False Cons dw show ?thesis by (simp add: list_all_iff)
  qed
qed

text \<open>
  The trimming of the source, \<^verbatim>\<open>substr\<close> from the first character outside one set to the
  last character outside a second set that contains the first.
\<close>

lemma substr_trim:
  assumes sub: "\<And>x. PA x \<Longrightarrow> PB x" and ex: "\<not> list_all PB s"
  shows "substr s (length (takeWhile PA s))
           (length (dropWhile PB (rev s)) - 1 - length (takeWhile PA s) + 1) =
         dropWhile PA (rev (dropWhile PB (rev s)))"
proof -
  let ?t = "rev (dropWhile PB (rev s))"
  let ?u = "rev (takeWhile PB (rev s))"
  have s: "s = ?t @ ?u"
    by (metis rev_append rev_rev_ident takeWhile_dropWhile_id)
  from ex obtain y where y: "y \<in> set s" "\<not> PB y" by (auto simp: list_all_iff)
  have "\<forall>x\<in>set ?u. PB x" by (auto dest: set_takeWhileD)
  with y s have yt: "y \<in> set ?t"
    by (metis Un_iff set_append)
  from y sub have nPA: "\<not> PA y" by blast
  have tw: "takeWhile PA s = takeWhile PA ?t"
    using yt nPA by (subst s) (rule takeWhile_append1)
  have lt: "length (takeWhile PA ?t) < length ?t"
  proof (rule ccontr)
    assume "\<not> length (takeWhile PA ?t) < length ?t"
    then have "length ?t \<le> length (takeWhile PA ?t)" by simp
    then have "take (length (takeWhile PA ?t)) ?t = ?t" by simp
    then have "takeWhile PA ?t = ?t" by (simp add: takeWhile_eq_take[symmetric])
    then have "\<forall>x\<in>set ?t. PA x" by (simp only: takeWhile_eq_all_conv)
    with yt nPA show False by blast
  qed
  let ?start = "length (takeWhile PA s)"
  have m: "length (dropWhile PB (rev s)) = length ?t" by simp
  have n: "length ?t - 1 - ?start + 1 = length ?t - ?start"
    using lt tw by simp
  have "substr s ?start (length ?t - ?start) = drop ?start (take (length ?t) s)"
    by (simp add: substr_def drop_take)
  also have "take (length ?t) s = ?t"
    by (subst s) simp
  also have "drop ?start ?t = dropWhile PA ?t"
    by (simp add: tw dropWhile_eq_drop)
  finally show ?thesis by (simp only: m n)
qed

lemma blank_set: "(\<lambda>x. x \<in> set [CHR '' '', CHR 0x09]) = blank"
  by (auto simp: blank_def fun_eq_iff)

lemma blank_or_eol_set: "(\<lambda>x. x \<in> set [CHR '' '', CHR 0x09, CHR 0x0D, CHR 0x0A]) = blank_or_eol"
  by (auto simp: blank_or_eol_def fun_eq_iff)

lemma ffno_blank:
  "find_first_not_of k [CHR '' '', CHR 0x09] =
     (if list_all blank k then None else Some (length (takeWhile blank k)))"
  by (simp only: find_first_not_of_eq blank_set)

lemma flno_blank:
  "find_last_not_of k [CHR '' '', CHR 0x09] =
     (if list_all blank k then None else Some (length (dropWhile blank (rev k)) - 1))"
  by (simp only: find_last_not_of_eq blank_set)

lemma flno_blank_or_eol:
  "find_last_not_of k [CHR '' '', CHR 0x09, CHR 0x0D, CHR 0x0A] =
     (if list_all blank_or_eol k then None
      else Some (length (dropWhile blank_or_eol (rev k)) - 1))"
  by (simp only: find_last_not_of_eq blank_or_eol_set)

lemma key_trim_code:
  "(case (find_first_not_of k [CHR '' '', CHR 0x09], find_last_not_of k [CHR '' '', CHR 0x09]) of
      (Some start, Some end_pos) \<Rightarrow> substr k start (end_pos - start + 1)
    | _ \<Rightarrow> k) = kept_key k"
proof (cases "list_all blank k")
  case True
  then show ?thesis
    by (simp add: ffno_blank flno_blank kept_key_def)
next
  case False
  then have "substr k (length (takeWhile blank k))
           (length (dropWhile blank (rev k)) - 1 - length (takeWhile blank k) + 1) =
         dropWhile blank (rev (dropWhile blank (rev k)))"
    by (intro substr_trim) auto
  with False show ?thesis
    by (simp add: ffno_blank flno_blank kept_key_def trim_key_def)
qed

lemma stoi_all_space:
  assumes "list_all isspace s"
  shows "stoi s = None"
proof -
  have d: "dropWhile isspace s = []"
    using assms by (simp add: list_all_iff)
  show ?thesis unfolding stoi_def d by simp
qed

lemma blank_or_eol_isspace: "blank_or_eol c \<Longrightarrow> isspace c"
  by (auto simp: blank_or_eol_def isspace_def)

lemma blank_blank_or_eol: "blank c \<Longrightarrow> blank_or_eol c"
  by (auto simp: blank_or_eol_def blank_def)

lemma value_trim_code:
  "stoi (case (find_first_not_of v [CHR '' '', CHR 0x09],
               find_last_not_of v [CHR '' '', CHR 0x09, CHR 0x0D, CHR 0x0A]) of
           (Some start, Some end_pos) \<Rightarrow> substr v start (end_pos - start + 1)
         | _ \<Rightarrow> v) = stoi (trim_value v)"
proof (cases "list_all blank_or_eol v")
  case True
  then have "list_all isspace v"
    by (auto simp: list_all_iff blank_or_eol_isspace)
  then have "stoi v = None" by (rule stoi_all_space)
  moreover have "trim_value v = []"
  proof -
    from True have d: "dropWhile blank_or_eol (rev v) = []"
      by (simp add: list_all_iff)
    show ?thesis unfolding trim_value_def d by simp
  qed
  moreover have "stoi [] = None" by (simp add: stoi_def)
  ultimately show ?thesis using True
    by (simp add: ffno_blank flno_blank_or_eol split: option.split)
next
  case False
  then have nb: "\<not> list_all blank v"
    by (auto simp: list_all_iff dest: blank_blank_or_eol)
  from False have "substr v (length (takeWhile blank v))
           (length (dropWhile blank_or_eol (rev v)) - 1 - length (takeWhile blank v) + 1) =
         dropWhile blank (rev (dropWhile blank_or_eol (rev v)))"
    by (intro substr_trim) (auto simp: blank_blank_or_eol)
  with False nb show ?thesis
    by (simp add: ffno_blank flno_blank_or_eol trim_value_def)
qed

lemma parse_line_entry:
  assumes "line \<noteq> []" and "hd line \<noteq> CHR ''#''" and "hd line \<noteq> CHR '';''"
  shows "parse_line m line =
     (if CHR ''='' \<notin> set (strip_cr line) then m
      else case stoi (trim_value (value_text line)) of
             None \<Rightarrow> m
           | Some v \<Rightarrow> AList.update (kept_key (key_text line)) v m)"
proof (cases "CHR ''='' \<in> set (strip_cr line)")
  case False
  with assms show ?thesis
    by (simp add: parse_line_def strip_cr_def find_char_eq)
next
  case True
  let ?l = "strip_cr line"
  let ?p = "length (takeWhile (\<lambda>x. x \<noteq> CHR ''='') ?l)"
  have k: "substr ?l 0 ?p = key_text line"
    by (simp add: substr_def key_text_def takeWhile_eq_take[symmetric])
  have v: "drop (?p + 1) ?l = value_text line"
    by (simp add: value_text_def dropWhile_eq_drop)
  have fc: "find_char ?l (CHR ''='') = Some ?p"
    using True by (simp add: find_char_eq)
  have "parse_line m line =
      (case stoi (case (find_first_not_of (value_text line) [CHR '' '', CHR 0x09],
               find_last_not_of (value_text line) [CHR '' '', CHR 0x09, CHR 0x0D, CHR 0x0A]) of
           (Some start, Some end_pos) \<Rightarrow> substr (value_text line) start (end_pos - start + 1)
         | _ \<Rightarrow> value_text line) of
         None \<Rightarrow> m
       | Some x \<Rightarrow> AList.update
           (case (find_first_not_of (key_text line) [CHR '' '', CHR 0x09],
                  find_last_not_of (key_text line) [CHR '' '', CHR 0x09]) of
              (Some start, Some end_pos) \<Rightarrow> substr (key_text line) start (end_pos - start + 1)
            | _ \<Rightarrow> key_text line) x m)"
    using assms fc
    unfolding parse_line_def strip_cr_def[symmetric] Let_def
    by (simp only: k v if_False option.case simp_thms)
  then show ?thesis
    using True by (simp only: value_trim_code key_trim_code) simp
qed

lemma strip_cr_has_eq: "(CHR ''='' \<in> set (strip_cr line)) = (CHR ''='' \<in> set line)"
proof (cases "line \<noteq> [] \<and> last line = CHR 0x0D")
  case True
  then have "line = butlast line @ [CHR 0x0D]"
    by (metis append_butlast_last_id)
  then have "set line = set (butlast line) \<union> {CHR 0x0D}"
    by (metis list.set(1) list.simps(15) set_append Un_insert_right sup_bot.right_neutral)
  with True show ?thesis by (auto simp: strip_cr_def)
next
  case False
  then show ?thesis by (auto simp: strip_cr_def)
qed

lemma parse_line_skip_head:
  "line = [] \<or> hd line = CHR ''#'' \<or> hd line = CHR '';'' \<Longrightarrow> parse_line m line = m"
  by (auto simp: parse_line_def)

lemma parse_line_skip_no_eq:
  assumes "CHR ''='' \<notin> set line"
  shows "parse_line m line = m"
proof (cases "line = [] \<or> hd line = CHR ''#'' \<or> hd line = CHR '';''")
  case True
  then show ?thesis by (rule parse_line_skip_head)
next
  case False
  with assms show ?thesis by (simp add: parse_line_entry strip_cr_has_eq)
qed

lemma parse_line_skip_value:
  assumes "stoi (trim_value (value_text line)) = None"
  shows "parse_line m line = m"
proof (cases "line = [] \<or> hd line = CHR ''#'' \<or> hd line = CHR '';''")
  case True
  then show ?thesis by (rule parse_line_skip_head)
next
  case False
  with assms show ?thesis by (simp add: parse_line_entry)
qed

lemma parse_line_kept:
  "line \<noteq> [] \<Longrightarrow> hd line \<noteq> CHR ''#'' \<Longrightarrow> hd line \<noteq> CHR '';'' \<Longrightarrow> CHR ''='' \<in> set line \<Longrightarrow>
   stoi (trim_value (value_text line)) = Some v \<Longrightarrow>
   parse_line m line = AList.update (kept_key (key_text line)) v m"
  by (simp add: parse_line_entry strip_cr_has_eq)

lemma example_file:
  "ParseBbsaFile
     (\<lambda>p. Some (''# comment'' @ [CHR 0x0A] @ [CHR 0x0A] @ ''Stayman = 1'' @ [CHR 0x0A] @
                ''garbage_no_equals'' @ [CHR 0x0A] @ ''Bad=notanumber'' @ [CHR 0x0A]))
     path = [(''Stayman'', 1)]"
  by (simp add: ParseBbsaFile_def getlines_def parse_line_def substr_def stoi_def isspace_def
      isdigit_def decimal_def Let_def)

lemma trim_key_Nil: "trim_key [] = []"
  by (simp add: trim_key_def)

text \<open>
  C6, as the code is designed. A blank line, a line whose first character is \<^verbatim>\<open>#\<close> or
  \<^verbatim>\<open>;\<close>, a line without \<^verbatim>\<open>=\<close> and a line whose trimmed value \<^verbatim>\<open>std::stoi\<close> rejects
  are skipped. The key is not checked: every other line gives an entry, with the integer
  \<^verbatim>\<open>std::stoi\<close> reads from its trimmed value. When the text before the first \<^verbatim>\<open>=\<close> is
  empty or has a character other than space and tab, the key of the entry is that text
  trimmed. The file is read line by line from the empty map, and the example file of the
  specification parses to the single entry Stayman = 1.
\<close>

theorem ParseBbsaFile_line_rules:
  "parse_line m [] = m \<and>
   (line \<noteq> [] \<and> (hd line = CHR ''#'' \<or> hd line = CHR '';'') \<longrightarrow> parse_line m line = m) \<and>
   (CHR ''='' \<notin> set line \<longrightarrow> parse_line m line = m) \<and>
   (stoi (trim_value (value_text line)) = None \<longrightarrow> parse_line m line = m) \<and>
   (line \<noteq> [] \<and> hd line \<noteq> CHR ''#'' \<and> hd line \<noteq> CHR '';'' \<and> CHR ''='' \<in> set line \<and>
    stoi (trim_value (value_text line)) = Some v \<longrightarrow>
      (\<exists>k. parse_line m line = AList.update k v m \<and>
           map_of (parse_line m line) = (map_of m)(k \<mapsto> v) \<and>
           (key_text line = [] \<or> \<not> list_all blank (key_text line) \<longrightarrow>
              k = trim_key (key_text line)))) \<and>
   ParseBbsaFile fs path =
     (case fs path of None \<Rightarrow> [] | Some content \<Rightarrow> foldl parse_line [] (getlines content)) \<and>
   ParseBbsaFile
     (\<lambda>p. Some (''# comment'' @ [CHR 0x0A] @ [CHR 0x0A] @ ''Stayman = 1'' @ [CHR 0x0A] @
                ''garbage_no_equals'' @ [CHR 0x0A] @ ''Bad=notanumber'' @ [CHR 0x0A]))
     path = [(''Stayman'', 1)]"
proof (intro conjI impI)
  show "parse_line m [] = m"
    by (simp add: parse_line_skip_head)
  show "parse_line m line = m" if "line \<noteq> [] \<and> (hd line = CHR ''#'' \<or> hd line = CHR '';'')"
    using that by (intro parse_line_skip_head) blast
  show "parse_line m line = m" if "CHR ''='' \<notin> set line"
    using that by (rule parse_line_skip_no_eq)
  show "parse_line m line = m" if "stoi (trim_value (value_text line)) = None"
    using that by (rule parse_line_skip_value)
  show "\<exists>k. parse_line m line = AList.update k v m \<and>
           map_of (parse_line m line) = (map_of m)(k \<mapsto> v) \<and>
           (key_text line = [] \<or> \<not> list_all blank (key_text line) \<longrightarrow>
              k = trim_key (key_text line))"
    if "line \<noteq> [] \<and> hd line \<noteq> CHR ''#'' \<and> hd line \<noteq> CHR '';'' \<and> CHR ''='' \<in> set line \<and>
        stoi (trim_value (value_text line)) = Some v"
  proof (intro exI conjI impI)
    show "parse_line m line = AList.update (kept_key (key_text line)) v m"
      using that by (simp add: parse_line_kept)
    then show "map_of (parse_line m line) = (map_of m)(kept_key (key_text line) \<mapsto> v)"
      by (simp add: update_conv')
    show "kept_key (key_text line) = trim_key (key_text line)"
      if "key_text line = [] \<or> \<not> list_all blank (key_text line)"
      using that by (auto simp: kept_key_def trim_key_Nil)
  qed
  show "ParseBbsaFile fs path =
     (case fs path of None \<Rightarrow> [] | Some content \<Rightarrow> foldl parse_line [] (getlines content))"
    by (simp add: ParseBbsaFile_def)
  show "ParseBbsaFile
     (\<lambda>p. Some (''# comment'' @ [CHR 0x0A] @ [CHR 0x0A] @ ''Stayman = 1'' @ [CHR 0x0A] @
                ''garbage_no_equals'' @ [CHR 0x0A] @ ''Bad=notanumber'' @ [CHR 0x0A]))
     path = [(''Stayman'', 1)]"
    by (rule example_file)
qed

theorem ParseBbsaFile_line_rules_witness:
  "parse_line [] ''# comment'' = [] \<and>
   parse_line [] ''garbage_no_equals'' = [] \<and>
   parse_line [] ''Bad=notanumber'' = [] \<and>
   parse_line [(''Bergen'', 0)] (''  Stayman = 1 '' @ [CHR 0x0D]) =
     [(''Bergen'', 0), (''Stayman'', 1)] \<and>
   parse_line [] ''=5'' = [('''', 5)]"
  using ParseBbsaFile_line_rules [of "[]" "''# comment''" 0 "\<lambda>p. None" "''''"]
    ParseBbsaFile_line_rules [of "[]" "''garbage_no_equals''" 0 "\<lambda>p. None" "''''"]
    ParseBbsaFile_line_rules [of "[]" "''Bad=notanumber''" 0 "\<lambda>p. None" "''''"]
    ParseBbsaFile_line_rules
      [of "[(''Bergen'', 0)]" "''  Stayman = 1 '' @ [CHR 0x0D]" 1 "\<lambda>p. None" "''''"]
    ParseBbsaFile_line_rules [of "[]" "''=5''" 5 "\<lambda>p. None" "''''"]
  by (auto simp: value_text_def key_text_def strip_cr_def trim_value_def trim_key_def
      blank_def blank_or_eol_def stoi_def isspace_def isdigit_def decimal_def Let_def)

text \<open>
  C6, as the claim states it, fails: a line whose key is empty after trimming is not
  skipped. The one line \<^verbatim>\<open>=5\<close> gives an entry with the empty key. A value with text
  after its digits is read up to that text.
\<close>

theorem ParseBbsaFile_keeps_empty_key:
  "ParseBbsaFile (\<lambda>p. Some ''=5'') ''conventions.bbsa'' = [('''', 5)] \<and>
   ParseBbsaFile (\<lambda>p. Some ''Bad=12abc'') ''conventions.bbsa'' = [(''Bad'', 12)]"
  by (simp add: ParseBbsaFile_def getlines_def parse_line_def substr_def stoi_def isspace_def
      isdigit_def decimal_def Let_def)

text \<open>
  A key of spaces and tabs only is stored as it stands, where the source says
  \<^verbatim>\<open>// Trim whitespace from key\<close>: the guard of lines 95 to 97 leaves it out.
\<close>

lemma parse_line_blank_key_untrimmed: "parse_line [] '' = 5'' = [('' '', 5)]"
  by (simp add: parse_line_def substr_def stoi_def isspace_def isdigit_def decimal_def Let_def)

section \<open>Loading a convention file\<close>

lemma parse_line_cases:
  "(\<forall>m. parse_line m line = m) \<or> (\<exists>k v. \<forall>m. parse_line m line = AList.update k v m)"
proof (cases "line = [] \<or> hd line = CHR ''#'' \<or> hd line = CHR '';''")
  case True
  then show ?thesis
    by (simp add: parse_line_skip_head)
next
  case False
  then show ?thesis
    by (cases "stoi (trim_value (value_text line))") (auto simp: parse_line_entry)
qed

lemma parse_line_Nil_iff: "parse_line m line = [] \<longleftrightarrow> m = [] \<and> parse_line [] line = []"
  using parse_line_cases[of line] by auto

lemma parse_line_Nil_entry: "parse_line [] line = [] \<longleftrightarrow> \<not> entry_line line"
proof (cases "line = [] \<or> hd line = CHR ''#'' \<or> hd line = CHR '';''")
  case True
  then have "parse_line [] line = []" by (rule parse_line_skip_head)
  with True show ?thesis by (auto simp: entry_line_def)
next
  case False
  then show ?thesis
    by (cases "stoi (trim_value (value_text line))")
       (auto simp: parse_line_entry entry_line_def strip_cr_has_eq)
qed

lemma foldl_parse_line_Nil:
  "foldl parse_line m ls = [] \<longleftrightarrow> m = [] \<and> list_all (\<lambda>l. \<not> entry_line l) ls"
proof (induction ls arbitrary: m)
  case Nil
  show ?case by simp
next
  case (Cons l ls)
  show ?case
    using parse_line_Nil_iff[of m l] by (auto simp: Cons parse_line_Nil_entry)
qed

lemma ParseBbsaFile_Nil_iff:
  "ParseBbsaFile fs path = [] \<longleftrightarrow>
     fs path = None \<or>
     (\<exists>content. fs path = Some content \<and>
        list_all (\<lambda>line. \<not> entry_line line) (getlines content))"
  by (cases "fs path") (simp_all add: ParseBbsaFile_def foldl_parse_line_Nil)

lemma fst_apply_conventions:
  "fst (apply_conventions eng side cs (inst, err)) =
     foldl (\<lambda>i (k, v). handle' (epbot_set_convention eng i (Some (c_str k)) v side)) inst cs"
  by (induction cs arbitrary: inst err) (auto simp: Let_def)

text \<open>
  C7, as the code is designed. For every instance, path, side, engine and traversal
  order of the map, \<open>epbot_load_conventions\<close> returns \<open>EPBOT_ERR_INVALID_CONVENTION_FILE\<close>
  exactly when the file cannot be opened or none of its lines gives an entry, a line
  giving one whatever its key is; then the struct is unchanged. Otherwise it returns
  \<open>EPBOT_OK\<close>, whatever the calls of \<open>epbot_set_convention\<close> returned, and the struct is
  the one left by calling \<open>epbot_set_convention\<close> once on each parsed entry, in some
  order. A null path is answered with \<open>EPBOT_ERR_INVALID_CONVENTION_FILE\<close> as well.
\<close>

theorem epbot_load_conventions_result:
  assumes "mset (traversal (ParseBbsaFile fs path)) = mset (ParseBbsaFile fs path)"
  shows
  "(ret (epbot_load_conventions eng fs traversal (Some h) (Some path) side) =
      EPBOT_ERR_INVALID_CONVENTION_FILE) =
     (fs path = None \<or>
      (\<exists>content. fs path = Some content \<and>
         list_all (\<lambda>line. \<not> entry_line line) (getlines content))) \<and>
   (ret (epbot_load_conventions eng fs traversal (Some h) (Some path) side) =
      EPBOT_ERR_INVALID_CONVENTION_FILE \<longrightarrow>
    handle' (epbot_load_conventions eng fs traversal (Some h) (Some path) side) = Some h) \<and>
   (ret (epbot_load_conventions eng fs traversal (Some h) (Some path) side) \<noteq>
      EPBOT_ERR_INVALID_CONVENTION_FILE \<longrightarrow>
    ret (epbot_load_conventions eng fs traversal (Some h) (Some path) side) = EPBOT_OK \<and>
    (\<exists>order. mset order = mset (ParseBbsaFile fs path) \<and>
       handle' (epbot_load_conventions eng fs traversal (Some h) (Some path) side) =
         foldl (\<lambda>i (k, v). handle' (epbot_set_convention eng i (Some (c_str k)) v side))
           (Some h) order)) \<and>
   ret (epbot_load_conventions eng fs traversal (Some h) None side) =
     EPBOT_ERR_INVALID_CONVENTION_FILE"
proof -
  let ?r = "epbot_load_conventions eng fs traversal (Some h) (Some path) side"
  let ?order = "traversal (ParseBbsaFile fs path)"
  obtain i1 e1 where ap: "apply_conventions eng side ?order (Some h, None) = (i1, e1)"
    by (cases "apply_conventions eng side ?order (Some h, None)")
  have i1: "i1 = foldl (\<lambda>i (k, v). handle' (epbot_set_convention eng i (Some (c_str k)) v side))
        (Some h) ?order"
    using fst_apply_conventions[of eng side ?order "Some h" None] ap by simp
  have r: "?r = (if ParseBbsaFile fs path = []
                 then \<lparr>ret = EPBOT_ERR_INVALID_CONVENTION_FILE, handle' = Some h,
                       last_error = Some ''Failed to parse convention file or file is empty'',
                       written = None\<rparr>
                 else \<lparr>ret = EPBOT_OK, handle' = i1, last_error = e1, written = None\<rparr>)"
    by (simp add: epbot_load_conventions_def ap)
  have inv: "(ret ?r = EPBOT_ERR_INVALID_CONVENTION_FILE) = (ParseBbsaFile fs path = [])"
    by (simp add: r)
  have c1: "(ret ?r = EPBOT_ERR_INVALID_CONVENTION_FILE) =
     (fs path = None \<or>
      (\<exists>content. fs path = Some content \<and>
         list_all (\<lambda>line. \<not> entry_line line) (getlines content)))"
    by (simp only: inv ParseBbsaFile_Nil_iff)
  have c2: "ret ?r = EPBOT_ERR_INVALID_CONVENTION_FILE \<longrightarrow> handle' ?r = Some h"
    by (simp add: r)
  have c3: "ret ?r \<noteq> EPBOT_ERR_INVALID_CONVENTION_FILE \<longrightarrow>
    ret ?r = EPBOT_OK \<and>
    (\<exists>order. mset order = mset (ParseBbsaFile fs path) \<and>
       handle' ?r =
         foldl (\<lambda>i (k, v). handle' (epbot_set_convention eng i (Some (c_str k)) v side))
           (Some h) order)"
  proof (intro impI conjI exI[of _ ?order])
    assume ne: "ret ?r \<noteq> EPBOT_ERR_INVALID_CONVENTION_FILE"
    then show "ret ?r = EPBOT_OK" by (simp add: r split: if_splits)
    show "mset ?order = mset (ParseBbsaFile fs path)" by (rule assms)
    from ne show "handle' ?r =
         foldl (\<lambda>i (k, v). handle' (epbot_set_convention eng i (Some (c_str k)) v side))
           (Some h) ?order"
      by (simp add: r i1[symmetric] split: if_splits)
  qed
  have c4: "ret (epbot_load_conventions eng fs traversal (Some h) None side) =
      EPBOT_ERR_INVALID_CONVENTION_FILE"
    by (simp add: epbot_load_conventions_def)
  from c1 c2 c3 c4 show ?thesis by (intro conjI)
qed

text \<open>
  The witness: a file with a known key, an unknown key and another known key, loaded into
  an engine whose convention setters throw, the map traversed from its last entry to its
  first. The call returns \<open>EPBOT_OK\<close> and both known properties were assigned. A file of
  one comment and a missing file are rejected.
\<close>

theorem epbot_load_conventions_result_witness:
  "ret (epbot_load_conventions (recording_engine None True) sample_fs rev
         (Some (new_handle [])) (Some ''ns.bbsa'') SIDE_NS) = EPBOT_OK \<and>
   (\<exists>h1. handle' (epbot_load_conventions (recording_engine None True) sample_fs rev
         (Some (new_handle [])) (Some ''ns.bbsa'') SIDE_NS) = Some h1 \<and>
      set (instance' h1) = {Put_convention Stayman 1, Put_convention Drury 0} \<and>
      length (instance' h1) = 2 \<and> auction h1 = [] \<and> current_position h1 = 0) \<and>
   ret (epbot_load_conventions (recording_engine None True) sample_fs rev
         (Some (new_handle [])) (Some ''empty.bbsa'') SIDE_NS) =
     EPBOT_ERR_INVALID_CONVENTION_FILE \<and>
   ret (epbot_load_conventions (recording_engine None True) sample_fs rev
         (Some (new_handle [])) (Some ''missing.bbsa'') SIDE_NS) =
     EPBOT_ERR_INVALID_CONVENTION_FILE"
  using epbot_load_conventions_result
      [of rev sample_fs "''ns.bbsa''" "recording_engine None True" "new_handle []" SIDE_NS]
    epbot_load_conventions_result
      [of rev sample_fs "''empty.bbsa''" "recording_engine None True" "new_handle []" SIDE_NS]
    epbot_load_conventions_result
      [of rev sample_fs "''missing.bbsa''" "recording_engine None True" "new_handle []" SIDE_NS]
  by (auto simp: sample_fs_def ParseBbsaFile_def getlines_def parse_line_def substr_def stoi_def
      isspace_def isdigit_def decimal_def Let_def epbot_set_convention_def key_property_def
      recording_engine_def new_handle_def epbot_load_conventions_def c_str_def)

text \<open>
  C7, as the claim states it, fails. The file of the one line \<^verbatim>\<open>=5\<close> opens and has no
  valid entry in the specification's words, its key being empty; the call returns
  \<open>EPBOT_OK\<close>.
\<close>

theorem epbot_load_conventions_empty_key_ok:
  "list_all (\<lambda>line. \<not> valid_entry_line line) (getlines ''=5'') \<and>
   ret (epbot_load_conventions (recording_engine None False) (\<lambda>p. Some ''=5'') (\<lambda>m. m)
         (Some (new_handle [])) (Some ''conventions.bbsa'') SIDE_NS) = EPBOT_OK"
  by (simp add: valid_entry_line_def entry_line_def key_text_def strip_cr_def trim_key_def
      getlines_def epbot_load_conventions_def ParseBbsaFile_def parse_line_def substr_def
      stoi_def isspace_def isdigit_def decimal_def Let_def epbot_set_convention_def
      key_property_def c_str_def split: prod.splits)

end
